theory Spec2Isabelle
  imports Main
begin

section \<open>Configuration translation: \<open>parse_vllm_args\<close>\<close>

text \<open>
  The values of the raw configuration mapping. The source annotates the mapping as
  \<^verbatim>\<open>Dict[str, str]\<close>, and its loop tests \<^verbatim>\<open>value is True\<close> and
  \<^verbatim>\<open>value not in (None, "None")\<close>, so booleans and \<^verbatim>\<open>None\<close> reach it as well;
  integers arrive from deployment descriptors. Other Python values are not modelled.
\<close>

datatype cli_value = VBool bool | VNone | VStr string | VInt int

text \<open>Python's \<^verbatim>\<open>str(value)\<close> on these values.\<close>

fun str_nat :: "nat \<Rightarrow> string" where
  "str_nat n =
     (if n < 10 then [''0123456789'' ! n]
      else str_nat (n div 10) @ [''0123456789'' ! (n mod 10)])"

declare str_nat.simps [simp del]

fun py_str :: "cli_value \<Rightarrow> string" where
  "py_str (VBool True) = ''True''"
| "py_str (VBool False) = ''False''"
| "py_str VNone = ''None''"
| "py_str (VStr s) = s"
| "py_str (VInt i) = (if i < 0 then ''-'' @ str_nat (nat (- i)) else str_nat (nat i))"

text \<open>The f-string \<^verbatim>\<open>f"--{key}"\<close>.\<close>

definition flag :: "string \<Rightarrow> string" where
  "flag key = ''--'' @ key"

text \<open>
  A Python dict keeps insertion order and has each key once: the mapping is an
  association list, read in order by \<^verbatim>\<open>cli_args.items()\<close>, and a well-formed one
  has distinct keys.
\<close>

type_synonym cli_args = "(string \<times> cli_value) list"

text \<open>
  The loop of lines 133 to 141. Its state is the list \<^verbatim>\<open>arg_strings\<close> and the
  lines the logger has received; \<^verbatim>\<open>append\<close> and \<^verbatim>\<open>extend\<close> add at the end.
\<close>

fun parse_loop :: "cli_args \<Rightarrow> string list \<times> string list \<Rightarrow> string list \<times> string list" where
  "parse_loop [] st = st"
| "parse_loop ((key, value) # rest) (arg_strings, log) =
     (let log' = log @ [''Processing argument: --'' @ key @ '' with value: '' @ py_str value]
      in if value = VBool True then
           parse_loop rest (arg_strings @ [flag key], log')
         else if value \<notin> set [VNone, VStr ''None''] then
           parse_loop rest (arg_strings @ [flag key, py_str value], log')
         else
           parse_loop rest (arg_strings @ [flag key], log'))"

text \<open>
  What \<^verbatim>\<open>parse_args\<close> raises: argparse reports a rejected argument list by
  leaving through \<^verbatim>\<open>SystemExit\<close>. \<^verbatim>\<open>AssertionError\<close> and \<^verbatim>\<open>AttributeError\<close>
  belong to the request handlers below; \<open>LibraryError\<close> stands for an exception
  raised inside the engine library, with its name.
\<close>

datatype py_exception = SystemExit int | AssertionError | AttributeError | LibraryError string

text \<open>
  \<^verbatim>\<open>parse_vllm_args\<close>. The parser that \<^verbatim>\<open>make_arg_parser\<close> builds belongs to the
  engine's library and is a parameter: a function from the argument list to the
  parsed namespace or to the exception it leaves through. The function is given the
  logger's lines so far and returns them extended.
\<close>

definition parse_vllm_args ::
  "(string list \<Rightarrow> py_exception + 'ns) \<Rightarrow> cli_args \<Rightarrow> string list \<Rightarrow> (py_exception + 'ns) \<times> string list" where
  "parse_vllm_args parser cli_args log =
     (let (arg_strings, log') = parse_loop cli_args ([], log)
      in (parser arg_strings, log'))"

text \<open>The argument list the loop hands to the parser.\<close>

definition arg_strings_of :: "cli_args \<Rightarrow> string list" where
  "arg_strings_of cli_args = fst (parse_loop cli_args ([], []))"

text \<open>
  The same per entry, in the words of the specification: a bare flag for \<^verbatim>\<open>True\<close>, a
  bare flag for an absent value or the string \<^verbatim>\<open>"None"\<close>, and otherwise the flag and
  the string form of the value. The loop is compared with it below.
\<close>

definition spec_entry_args :: "string \<Rightarrow> cli_value \<Rightarrow> string list" where
  "spec_entry_args key value =
     (if value = VBool True then [flag key]
      else if value = VNone \<or> value = VStr ''None'' then [flag key]
      else [flag key, py_str value])"

text \<open>The line the logger receives for one entry (line 134).\<close>

definition entry_log :: "string \<Rightarrow> cli_value \<Rightarrow> string" where
  "entry_log key value = ''Processing argument: --'' @ key @ '' with value: '' @ py_str value"

text \<open>The value strings the loop emits: one for each entry of the middle branch.\<close>

definition value_tokens :: "cli_args \<Rightarrow> string list" where
  "value_tokens xs =
     map (\<lambda>(k, v). py_str v)
       (filter (\<lambda>(k, v). v \<noteq> VBool True \<and> v \<noteq> VNone \<and> v \<noteq> VStr ''None'') xs)"

text \<open>
  A parser for the closed examples: it accepts every argument list and returns it as
  the namespace, as a parser all of whose options have defaults accepts a list that
  leaves options out.
\<close>

definition permissive_parser :: "string list \<Rightarrow> py_exception + string list" where
  "permissive_parser args = Inr args"

section \<open>The deployment: \<open>VLLMDeployment\<close>\<close>

subsection \<open>Data\<close>

text \<open>What \<^verbatim>\<open>engine.get_model_config()\<close> returns; opaque to the deployment.\<close>

datatype model_config = ModelConfig string

text \<open>The three kinds of model path, each a name and a path.\<close>

datatype base_model_path = BaseModelPath string string
datatype lora_module_path = LoRAModulePath string string
datatype prompt_adapter_path = PromptAdapterPath string string

text \<open>
  \<^verbatim>\<open>OpenAIServingModels(engine, model_config, base_model_paths, lora_modules=...,
  prompt_adapters=...)\<close>: the registry object, as the arguments it was built from.
\<close>

record serving_models =
  sm_model_config :: model_config
  base_model_paths :: "base_model_path list"
  sm_lora_modules :: "lora_module_path list option"
  sm_prompt_adapters :: "prompt_adapter_path list option"

text \<open>
  \<^verbatim>\<open>OpenAIServingChat(engine, model_config, models, response_role, request_logger=...,
  chat_template=..., chat_template_content_format="auto")\<close>. Every construction makes a
  new Python object; \<open>object_id\<close> is its identity.
\<close>

record serving_chat =
  object_id :: nat
  sc_model_config :: model_config
  sc_models :: serving_models
  sc_response_role :: string
  sc_request_logger :: "string option"
  sc_chat_template :: "string option"
  sc_content_format :: string

text \<open>
  The fields of \<^verbatim>\<open>self\<close> (lines 48 to 55), with \<open>model\<close> for
  \<^verbatim>\<open>self.engine_args.model\<close>. The engine is its answer to the metadata query and
  the number of metadata queries it has received; \<open>objects_built\<close> counts the
  \<^verbatim>\<open>OpenAIServingChat\<close> objects constructed so far. \<open>constructor_error\<close> is what
  the library's \<^verbatim>\<open>OpenAIServingChat(...)\<close> raises for this configuration, when it
  raises.
\<close>

record deployment =
  openai_serving_chat :: "serving_chat option"
  model :: string
  response_role :: string
  lora_modules :: "lora_module_path list option"
  prompt_adapters :: "prompt_adapter_path list option"
  request_logger :: "string option"
  chat_template :: "string option"
  engine_model_config :: model_config
  metadata_calls :: nat
  objects_built :: nat
  constructor_error :: "py_exception option"

text \<open>\<^verbatim>\<open>__init__\<close>: the serving facade starts unset.\<close>

definition init_deployment ::
  "string \<Rightarrow> string \<Rightarrow> lora_module_path list option \<Rightarrow> prompt_adapter_path list option \<Rightarrow>
   string option \<Rightarrow> string option \<Rightarrow> model_config \<Rightarrow> py_exception option \<Rightarrow> deployment" where
  "init_deployment engine_model role loras adapters logger template mc ce =
     \<lparr>openai_serving_chat = None, model = engine_model, response_role = role,
      lora_modules = loras, prompt_adapters = adapters, request_logger = logger,
      chat_template = template, engine_model_config = mc, metadata_calls = 0,
      objects_built = 0, constructor_error = ce\<rparr>"

text \<open>The request: the \<^verbatim>\<open>stream\<close> flag, the model it names and its messages.\<close>

record chat_completion_request =
  stream :: bool
  req_model :: string
  messages :: "(string \<times> string) list"

text \<open>
  What \<^verbatim>\<open>openai_serving_chat.create_chat_completion\<close> hands back when it returns:
  an \<^verbatim>\<open>ErrorResponse\<close>, a \<^verbatim>\<open>ChatCompletionResponse\<close>, or an asynchronous
  generator (the chunks it will yield, in order).
\<close>

record error_response =
  message :: string
  err_type :: string
  code :: int

datatype chat_completion = ChatCompletion string string

datatype chat_result =
    ErrorResponse error_response
  | ChatCompletionResponse chat_completion
  | Generator "string list"

text \<open>
  The transport responses. A JSON body is the \<^verbatim>\<open>model_dump()\<close> of the object it was
  made from, which keeps every field; \<^verbatim>\<open>StreamingResponse\<close> holds whatever it was
  given as content and its media type.
\<close>

datatype model_card =
    BaseCard base_model_path
  | LoRACard lora_module_path
  | AdapterCard prompt_adapter_path

datatype content =
    ErrorDump error_response
  | CompletionDump chat_completion
  | ModelListDump "model_card list"

datatype response =
    JSONResponse content int
  | StreamingResponse chat_result string

text \<open>
  Modelled from the spec: the status of a \<^verbatim>\<open>JSONResponse\<close> built without
  \<^verbatim>\<open>status_code\<close> is the web framework's default, which is not in the source;
  section 4.4 has "JSON body + 200".
\<close>

definition default_status_code :: int where
  "default_status_code = 200"

subsection \<open>The segments of the handlers\<close>

text \<open>
  \<^verbatim>\<open>await self.engine.get_model_config()\<close>: the engine counts the query. The engine
  is the one line 55 builds; it answers the query with the configuration it holds,
  without suspending and without raising (a fact of the engine library, which is not
  in the source). Awaiting it therefore does not hand control to the event loop.
\<close>

definition get_model_config :: "deployment \<Rightarrow> model_config \<times> deployment" where
  "get_model_config d = (engine_model_config d, d\<lparr>metadata_calls := metadata_calls d + 1\<rparr>)"

text \<open>The registry of lines 69 to 79, and again of lines 108 to 118.\<close>

definition make_models :: "deployment \<Rightarrow> model_config \<Rightarrow> serving_models" where
  "make_models d mc =
     \<lparr>sm_model_config = mc,
      base_model_paths = [BaseModelPath (model d) (model d)],
      sm_lora_modules = lora_modules d,
      sm_prompt_adapters = prompt_adapters d\<rparr>"

text \<open>
  Lines 69 to 88: build the registry and the facade, and store the facade. When the
  constructor raises, nothing is stored and no object is counted.
\<close>

definition build_serving_chat :: "model_config \<Rightarrow> deployment \<Rightarrow> py_exception + deployment" where
  "build_serving_chat mc d =
     (case constructor_error d of
        Some e \<Rightarrow> Inl e
      | None \<Rightarrow>
          Inr (d\<lparr>openai_serving_chat :=
                    Some \<lparr>object_id = objects_built d, sc_model_config = mc,
                          sc_models = make_models d mc, sc_response_role = response_role d,
                          sc_request_logger = request_logger d, sc_chat_template = chat_template d,
                          sc_content_format = ''auto''\<rparr>,
                 objects_built := objects_built d + 1\<rparr>))"

text \<open>
  Lines 93 to 101: the response for what the facade handed back. The \<^verbatim>\<open>assert\<close> of
  line 100 fails on anything but a \<^verbatim>\<open>ChatCompletionResponse\<close>.
\<close>

definition respond :: "chat_completion_request \<Rightarrow> chat_result \<Rightarrow> py_exception + response" where
  "respond request generator =
     (case generator of
        ErrorResponse e \<Rightarrow> Inr (JSONResponse (ErrorDump e) (code e))
      | _ \<Rightarrow>
          if stream request then Inr (StreamingResponse generator ''text/event-stream'')
          else (case generator of
                  ChatCompletionResponse c \<Rightarrow> Inr (JSONResponse (CompletionDump c) default_status_code)
                | _ \<Rightarrow> Inl AssertionError))"

text \<open>
  The facade's own \<^verbatim>\<open>create_chat_completion\<close> belongs to the engine library and is a
  parameter: for a facade and a request, the value it hands back or the exception it
  raises.
\<close>

type_synonym chat_call = "serving_chat \<Rightarrow> chat_completion_request \<Rightarrow> py_exception + chat_result"

text \<open>
  Lines 90 to 101, from the point where the awaited call is over: the handler has no
  \<^verbatim>\<open>try\<close>, so an exception of the call leaves the handler.
\<close>

definition chat_outcome :: "chat_call \<Rightarrow> chat_completion_request \<Rightarrow> serving_chat \<Rightarrow> py_exception + response" where
  "chat_outcome chat request facade =
     (case chat facade request of
        Inl e \<Rightarrow> Inl e
      | Inr generator \<Rightarrow> respond request generator)"

text \<open>
  Modelled from the spec: \<^verbatim>\<open>show_available_models\<close> of the engine library's
  \<^verbatim>\<open>OpenAIServingModels\<close> is not in the source. Section 4.2: the listing has the base
  model path, then the configured LoRA paths, then the prompt-adapter paths, each in
  the order of the configuration.
\<close>

definition show_available_models :: "serving_models \<Rightarrow> model_card list" where
  "show_available_models models =
     map BaseCard (base_model_paths models)
     @ map LoRACard (case sm_lora_modules models of None \<Rightarrow> [] | Some ls \<Rightarrow> ls)
     @ map AdapterCard (case sm_prompt_adapters models of None \<Rightarrow> [] | Some ps \<Rightarrow> ps)"

subsection \<open>The handlers, run without interruption\<close>

text \<open>Lines 89 to 101: read \<^verbatim>\<open>self.openai_serving_chat\<close>, call it and respond.\<close>

definition serve :: "chat_call \<Rightarrow> chat_completion_request \<Rightarrow> deployment \<Rightarrow> (py_exception + response) \<times> deployment" where
  "serve chat request d =
     (case openai_serving_chat d of
        None \<Rightarrow> (Inl AttributeError, d)
      | Some facade \<Rightarrow> (chat_outcome chat request facade, d))"

text \<open>\<^verbatim>\<open>POST /v1/chat/completions\<close>, lines 66 to 101:\<close>

definition create_chat_completion ::
  "chat_call \<Rightarrow> chat_completion_request \<Rightarrow> deployment \<Rightarrow> (py_exception + response) \<times> deployment" where
  "create_chat_completion chat request d =
     (if openai_serving_chat d = None
      then (let (mc, d') = get_model_config d
            in case build_serving_chat mc d' of
                 Inl e \<Rightarrow> (Inl e, d')
               | Inr d1 \<Rightarrow> serve chat request d1)
      else serve chat request d)"

text \<open>\<^verbatim>\<open>GET /v1/models\<close>, lines 107 to 119:\<close>

definition list_models :: "deployment \<Rightarrow> (py_exception + response) \<times> deployment" where
  "list_models d =
     (let (mc, d') = get_model_config d;
          models = make_models d' mc
      in (Inr (JSONResponse (ModelListDump (show_available_models models)) default_status_code), d'))"

text \<open>Requests served one after another by the chat handler.\<close>

fun serve_all :: "chat_call \<Rightarrow> chat_completion_request list \<Rightarrow> deployment \<Rightarrow> deployment" where
  "serve_all chat [] d = d"
| "serve_all chat (request # rest) d = serve_all chat rest (snd (create_chat_completion chat request d))"

subsection \<open>The handlers as coroutines\<close>

text \<open>
  Each handler is a coroutine, and the event loop can run another one where it is
  suspended. The chat handler is suspended at line 90, while the facade's call is in
  progress, and the listing at line 119. The \<^verbatim>\<open>await\<close>s of lines 67 and 107 are not
  such points, since the metadata query does not suspend: a chat handler runs from the
  test of line 66 to the call of line 90 without interruption. A task is a request
  and the point it has reached, with the local variables it holds there.
\<close>

datatype task =
    ChatStart chat_completion_request
  | ChatAwaitChat chat_completion_request serving_chat
  | ListStart
  | ListAwaitShow serving_models
  | Finished "py_exception + response"

text \<open>Lines 89 and 90: read \<^verbatim>\<open>self.openai_serving_chat\<close> and call it.\<close>

definition call_chat :: "chat_completion_request \<Rightarrow> deployment \<Rightarrow> task \<times> deployment" where
  "call_chat request d =
     (case openai_serving_chat d of
        None \<Rightarrow> (Finished (Inl AttributeError), d)
      | Some facade \<Rightarrow> (ChatAwaitChat request facade, d))"

text \<open>One task runs from the point it has reached to the next point of suspension.\<close>

fun task_step :: "chat_call \<Rightarrow> task \<Rightarrow> deployment \<Rightarrow> task \<times> deployment" where
  "task_step chat (ChatStart request) d =
     (if openai_serving_chat d = None
      then (let (mc, d') = get_model_config d
            in case build_serving_chat mc d' of
                 Inl e \<Rightarrow> (Finished (Inl e), d')
               | Inr d1 \<Rightarrow> call_chat request d1)
      else call_chat request d)"
| "task_step chat (ChatAwaitChat request facade) d = (Finished (chat_outcome chat request facade), d)"
| "task_step chat ListStart d =
     (let (mc, d') = get_model_config d in (ListAwaitShow (make_models d' mc), d'))"
| "task_step chat (ListAwaitShow models) d =
     (Finished (Inr (JSONResponse (ModelListDump (show_available_models models)) default_status_code)), d)"
| "task_step chat (Finished r) d = (Finished r, d)"

text \<open>
  The event loop resumes one task at a time. A schedule is the list of the tasks it
  resumes, by position; resuming a finished task, or a position with no task, changes
  nothing.
\<close>

definition step :: "chat_call \<Rightarrow> nat \<Rightarrow> deployment \<times> task list \<Rightarrow> deployment \<times> task list" where
  "step chat i s =
     (if i < length (snd s)
      then (let (t', d') = task_step chat (snd s ! i) (fst s) in (d', (snd s)[i := t']))
      else s)"

fun run :: "chat_call \<Rightarrow> nat list \<Rightarrow> deployment \<times> task list \<Rightarrow> deployment \<times> task list" where
  "run chat [] s = s"
| "run chat (i # schedule) s = run chat schedule (step chat i s)"

subsection \<open>The result variants of the specification\<close>



subsection \<open>A deployment and facades for the closed examples\<close>

definition demo_deployment :: deployment where
  "demo_deployment =
     init_deployment ''demo-7b'' ''assistant''
       (Some [LoRAModulePath ''A'' ''/adapters/a'', LoRAModulePath ''B'' ''/adapters/b''])
       None None None (ModelConfig ''demo-7b'') None"

text \<open>
  A facade that rejects a model it does not serve, streams when asked to and
  otherwise answers with one completion.
\<close>

definition demo_chat :: chat_call where
  "demo_chat facade request =
     (if BaseModelPath (req_model request) (req_model request) \<notin> set (base_model_paths (sc_models facade))
      then Inr (ErrorResponse
             \<lparr>message = ''The model does not exist.'', err_type = ''NotFoundError'', code = 404\<rparr>)
      else if stream request then Inr (Generator [''data: a'', ''data: b'', ''data: [DONE]''])
      else Inr (ChatCompletionResponse (ChatCompletion (sc_response_role facade) ''hello'')))"

text \<open>A facade whose engine has stopped: every call raises.\<close>

definition dead_chat :: chat_call where
  "dead_chat facade request = Inl (LibraryError ''EngineDeadError'')"

definition demo_request :: "bool \<Rightarrow> string \<Rightarrow> chat_completion_request" where
  "demo_request s m = \<lparr>stream = s, req_model = m, messages = [(''user'', ''hi'')]\<rparr>"

subsection \<open>Predicates on tasks and states\<close>




text \<open>
  What a task can have become while the facade stays \<open>facade\<close>: a chat request that
  had not started is still waiting, is being served by \<open>facade\<close>, or has finished with
  the outcome of that facade's call.
\<close>

fun after_ready :: "chat_call \<Rightarrow> serving_chat \<Rightarrow> task \<Rightarrow> task \<Rightarrow> bool" where
  "after_ready chat facade (ChatStart request) t =
     (t = ChatStart request \<or> t = ChatAwaitChat request facade
      \<or> t = Finished (chat_outcome chat request facade))"
| "after_ready chat facade t0 t = True"

definition ready_inv :: "chat_call \<Rightarrow> serving_chat \<Rightarrow> deployment \<Rightarrow> task list \<Rightarrow> deployment \<times> task list \<Rightarrow> bool" where
  "ready_inv chat facade d0 ts0 s =
     (openai_serving_chat (fst s) = Some facade \<and> objects_built (fst s) = objects_built d0
      \<and> list_all2 (after_ready chat facade) ts0 (snd s))"

section \<open>Properties of the configuration translation\<close>

subsection \<open>The loop, entry by entry\<close>

lemma parse_loop_eq:
  "parse_loop xs (a, l) =
     (a @ concat (map (\<lambda>(k, v). spec_entry_args k v) xs), l @ map (\<lambda>(k, v). entry_log k v) xs)"
proof (induction xs arbitrary: a l)
  case Nil
  show ?case by simp
next
  case (Cons e xs)
  obtain k v where e: "e = (k, v)" by (cases e)
  show ?case
    unfolding e by (simp add: Cons.IH spec_entry_args_def entry_log_def Let_def)
qed

lemma arg_strings_of_concat:
  "arg_strings_of xs = concat (map (\<lambda>(k, v). spec_entry_args k v) xs)"
  by (simp add: arg_strings_of_def parse_loop_eq)

lemma parse_vllm_args_eq:
  "parse_vllm_args parser cli_args log =
     (parser (arg_strings_of cli_args), log @ map (\<lambda>(k, v). entry_log k v) cli_args)"
  by (simp add: parse_vllm_args_def arg_strings_of_def parse_loop_eq)

lemma arg_strings_of_split:
  assumes "i < length xs" and "xs ! i = (key, value)"
  shows "arg_strings_of xs =
     arg_strings_of (take i xs) @ spec_entry_args key value @ arg_strings_of (drop (Suc i) xs)"
proof -
  have "xs = take i xs @ (key, value) # drop (Suc i) xs"
    using assms by (metis id_take_nth_drop)
  then have "arg_strings_of xs = arg_strings_of (take i xs @ (key, value) # drop (Suc i) xs)"
    by simp
  also have "\<dots> = arg_strings_of (take i xs) @ spec_entry_args key value @ arg_strings_of (drop (Suc i) xs)"
    by (simp add: arg_strings_of_concat)
  finally show ?thesis .
qed

lemma flag_inj: "flag a = flag b \<longleftrightarrow> a = b"
  by (simp add: flag_def)

subsection \<open>Counting a token of the argument list\<close>

lemma count_arg_strings:
  "count_list (arg_strings_of xs) t =
     count_list (map (\<lambda>(k, v). flag k) xs) t + count_list (value_tokens xs) t"
proof (induction xs)
  case Nil
  show ?case by (simp add: arg_strings_of_concat value_tokens_def)
next
  case (Cons e xs)
  obtain k v where e: "e = (k, v)" by (cases e)
  have "arg_strings_of (e # xs) = spec_entry_args k v @ arg_strings_of xs"
    unfolding e by (simp add: arg_strings_of_concat)
  then show ?case
    using Cons.IH unfolding e
    by (auto simp: spec_entry_args_def value_tokens_def)
qed

lemma count_flags_absent:
  "key \<notin> fst ` set xs \<Longrightarrow> count_list (map (\<lambda>(k, v). flag k) xs) (flag key) = 0"
  by (induction xs) (auto simp: flag_inj)

lemma count_flags_distinct:
  assumes "distinct (map fst xs)" and "(key, value) \<in> set xs"
  shows "count_list (map (\<lambda>(k, v). flag k) xs) (flag key) = 1"
  using assms
proof (induction xs)
  case Nil
  then show ?case by simp
next
  case (Cons e xs)
  obtain k v where e: "e = (k, v)" by (cases e)
  show ?case
  proof (cases "k = key")
    case True
    then have "key \<notin> fst ` set xs" using Cons.prems(1) e by simp
    then have "count_list (map (\<lambda>(k, v). flag k) xs) (flag key) = 0"
      by (rule count_flags_absent)
    then show ?thesis using True e by simp
  next
    case False
    then have "(key, value) \<in> set xs" using Cons.prems(2) e by auto
    then show ?thesis using Cons.IH Cons.prems(1) False e by (simp add: flag_inj)
  qed
qed

subsection \<open>The claims about \<open>parse_vllm_args\<close>\<close>

text \<open>
  Claim C10. An entry whose value is the boolean \<^verbatim>\<open>False\<close> puts two strings into the
  argument list, at the entry's place in the order of the mapping: the flag and then
  \<^verbatim>\<open>"False"\<close>. It is neither left out nor a bare flag. The parser receives that list.
\<close>

theorem parse_vllm_args_false_flag:
  assumes "i < length cli_args" and "cli_args ! i = (key, VBool False)"
  shows "fst (parse_vllm_args parser cli_args log) = parser (arg_strings_of cli_args)
    \<and> arg_strings_of cli_args =
        arg_strings_of (take i cli_args) @ [flag key, ''False''] @ arg_strings_of (drop (Suc i) cli_args)"
  using arg_strings_of_split [OF assms]
  by (simp add: parse_vllm_args_eq spec_entry_args_def)

theorem parse_vllm_args_false_flag_witness:
  "fst (parse_vllm_args permissive_parser
          [(''model'', VStr ''demo-7b''), (''enforce-eager'', VBool False)] [])
     = Inr [''--model'', ''demo-7b'', ''--enforce-eager'', ''False'']"
  using parse_vllm_args_false_flag
    [of 1 "[(''model'', VStr ''demo-7b''), (''enforce-eager'', VBool False)]"
        "''enforce-eager''" permissive_parser "[]"]
  by (simp add: arg_strings_of_concat spec_entry_args_def flag_def permissive_parser_def)

text \<open>
  Claim C2, as the code has it. For the entry at place \<open>i\<close> of a mapping, the argument
  list holds, at that place in the order of the mapping, the bare flag when the value
  is \<^verbatim>\<open>True\<close>, \<^verbatim>\<open>None\<close> or the string \<^verbatim>\<open>"None"\<close>, and otherwise the flag followed
  by the string form of the value. The token \<^verbatim>\<open>--key\<close> stands in the list once as the
  entry's flag, and once more for every entry whose emitted value string is that same
  token: exactly once when no value has that string form.
\<close>

theorem parse_vllm_args_entry_tokens:
  assumes "distinct (map fst cli_args)" and "i < length cli_args" and "cli_args ! i = (key, value)"
  shows "fst (parse_vllm_args parser cli_args log) = parser (arg_strings_of cli_args)
    \<and> arg_strings_of cli_args =
        arg_strings_of (take i cli_args) @ spec_entry_args key value @ arg_strings_of (drop (Suc i) cli_args)
    \<and> count_list (arg_strings_of cli_args) (flag key) = 1 + count_list (value_tokens cli_args) (flag key)"
proof -
  have "(key, value) \<in> set cli_args"
    using assms(2,3) by (metis nth_mem)
  then have "count_list (map (\<lambda>(k, v). flag k) cli_args) (flag key) = 1"
    using assms(1) by (rule count_flags_distinct [rotated])
  then have "count_list (arg_strings_of cli_args) (flag key) = 1 + count_list (value_tokens cli_args) (flag key)"
    by (simp add: count_arg_strings)
  moreover have "fst (parse_vllm_args parser cli_args log) = parser (arg_strings_of cli_args)"
    by (simp add: parse_vllm_args_eq)
  ultimately show ?thesis
    using arg_strings_of_split [OF assms(2,3)] by blast
qed

theorem parse_vllm_args_entry_tokens_witness:
  "arg_strings_of [(''model'', VStr ''demo-7b''), (''trust-remote-code'', VBool True), (''chat-template'', VNone)]
     = [''--model'', ''demo-7b'', ''--trust-remote-code'', ''--chat-template'']
   \<and> count_list
        (arg_strings_of [(''model'', VStr ''demo-7b''), (''trust-remote-code'', VBool True), (''chat-template'', VNone)])
        ''--trust-remote-code'' = 1"
  using parse_vllm_args_entry_tokens
    [of "[(''model'', VStr ''demo-7b''), (''trust-remote-code'', VBool True), (''chat-template'', VNone)]"
        1 "''trust-remote-code''" "VBool True" permissive_parser "[]"]
  by (simp add: arg_strings_of_concat spec_entry_args_def flag_def value_tokens_def)

text \<open>
  The claim as it is written fails where a value is itself the text of another entry's
  flag: the mapping \<^verbatim>\<open>{"a": True, "b": "--a"}\<close> gives \<^verbatim>\<open>["--a", "--b", "--a"]\<close>.
\<close>

theorem parse_vllm_args_flag_twice:
  "distinct (map fst [(''a'', VBool True), (''b'', VStr ''--a'')])
   \<and> arg_strings_of [(''a'', VBool True), (''b'', VStr ''--a'')] = [''--a'', ''--b'', ''--a'']
   \<and> count_list (arg_strings_of [(''a'', VBool True), (''b'', VStr ''--a'')]) (flag ''a'') = 2"
  by (simp add: arg_strings_of_concat spec_entry_args_def flag_def)

text \<open>
  Claim C6, as the code has it. A call of \<^verbatim>\<open>parse_vllm_args\<close> has one side effect:
  the logger receives a line for every entry of the mapping, on every call. The
  argument list built for the parser does not depend on what was logged before, so a
  second call on the same mapping hands the parser the list the first call handed it,
  and the two calls return the same configuration or the same failure (the parser is
  built anew by every call and is taken as a function of the argument list).
\<close>

theorem parse_vllm_args_effect:
  "snd (parse_vllm_args parser cli_args log) = log @ map (\<lambda>(k, v). entry_log k v) cli_args
   \<and> fst (parse_loop cli_args ([], snd (parse_vllm_args parser cli_args log)))
       = fst (parse_loop cli_args ([], log))
   \<and> fst (parse_vllm_args parser cli_args (snd (parse_vllm_args parser cli_args log)))
       = fst (parse_vllm_args parser cli_args log)"
  by (simp add: parse_vllm_args_eq parse_loop_eq)

theorem parse_vllm_args_effect_witness:
  "snd (parse_vllm_args permissive_parser [(''model'', VStr ''demo-7b''), (''seed'', VInt 7)]
          [''Starting''])
     = [''Starting'', ''Processing argument: --model with value: demo-7b'',
        ''Processing argument: --seed with value: 7'']
   \<and> fst (parse_vllm_args permissive_parser [(''model'', VStr ''demo-7b''), (''seed'', VInt 7)]
            (snd (parse_vllm_args permissive_parser [(''model'', VStr ''demo-7b''), (''seed'', VInt 7)]
                    [''Starting''])))
     = Inr [''--model'', ''demo-7b'', ''--seed'', ''7'']"
  using parse_vllm_args_effect
    [of permissive_parser "[(''model'', VStr ''demo-7b''), (''seed'', VInt 7)]" "[''Starting'']"]
  by (simp add: parse_vllm_args_eq arg_strings_of_concat spec_entry_args_def flag_def
      permissive_parser_def entry_log_def str_nat.simps)

text \<open>
  The claim as it is written fails: a call on a mapping with one entry leaves a line in
  a logger that was empty, and a second call leaves a second one.
\<close>

theorem parse_vllm_args_logs:
  "snd (parse_vllm_args permissive_parser [(''model'', VStr ''demo-7b'')] [])
     = [''Processing argument: --model with value: demo-7b'']
   \<and> snd (parse_vllm_args permissive_parser [(''model'', VStr ''demo-7b'')]
            (snd (parse_vllm_args permissive_parser [(''model'', VStr ''demo-7b'')] [])))
     = [''Processing argument: --model with value: demo-7b'',
        ''Processing argument: --model with value: demo-7b'']"
  by (simp add: parse_vllm_args_eq entry_log_def)




section \<open>Properties of the request handlers\<close>

subsection \<open>The response for what the facade hands back\<close>

lemma respond_error:
  "respond request (ErrorResponse e) = Inr (JSONResponse (ErrorDump e) (code e))"
  by (simp add: respond_def)


lemma respond_buffered:
  "\<not> stream request \<Longrightarrow>
   respond request (ChatCompletionResponse c) = Inr (JSONResponse (CompletionDump c) default_status_code)"
  by (simp add: respond_def)

lemma respond_assertion:
  "\<not> stream request \<Longrightarrow> respond request (Generator g) = Inl AssertionError"
  by (simp add: respond_def)



lemma chat_outcome_raised:
  "chat facade request = Inl e \<Longrightarrow> chat_outcome chat request facade = Inl e"
  by (simp add: chat_outcome_def)


subsection \<open>The chat handler, run without interruption\<close>

lemma create_chat_completion_ready:
  "openai_serving_chat d = Some facade \<Longrightarrow>
   create_chat_completion chat request d = (chat_outcome chat request facade, d)"
  by (simp add: create_chat_completion_def serve_def)

lemma create_chat_completion_built:
  assumes "openai_serving_chat d = None" and "constructor_error d = None"
  shows "\<exists>facade d1.
      build_serving_chat (engine_model_config d) (d\<lparr>metadata_calls := metadata_calls d + 1\<rparr>) = Inr d1
      \<and> openai_serving_chat d1 = Some facade
      \<and> create_chat_completion chat request d = (chat_outcome chat request facade, d1)"
  using assms
  by (simp add: create_chat_completion_def get_model_config_def build_serving_chat_def serve_def)

lemma create_chat_completion_build_raises:
  assumes "openai_serving_chat d = None" and "constructor_error d = Some e"
  shows "create_chat_completion chat request d = (Inl e, d\<lparr>metadata_calls := metadata_calls d + 1\<rparr>)"
  using assms
  by (simp add: create_chat_completion_def get_model_config_def build_serving_chat_def)

text \<open>When the handler leaves the facade set, its result is the outcome of that facade's call.\<close>

lemma create_chat_completion_served:
  assumes "openai_serving_chat (snd (create_chat_completion chat request d)) = Some facade"
  shows "fst (create_chat_completion chat request d) = chat_outcome chat request facade"
proof (cases "openai_serving_chat d")
  case (Some f)
  then show ?thesis using assms by (simp add: create_chat_completion_ready)
next
  case None
  show ?thesis
  proof (cases "constructor_error d")
    case (Some e)
    then show ?thesis
      using assms None by (simp add: create_chat_completion_build_raises)
  next
    case nce: None
    from create_chat_completion_built [OF None nce, of chat request]
    show ?thesis using assms by auto
  qed
qed

lemma create_chat_completion_sets:
  assumes "openai_serving_chat d \<noteq> None \<or> constructor_error d = None"
  shows "\<exists>facade. openai_serving_chat (snd (create_chat_completion chat request d)) = Some facade"
proof (cases "openai_serving_chat d")
  case (Some f)
  then show ?thesis by (simp add: create_chat_completion_ready)
next
  case None
  then have "constructor_error d = None" using assms by simp
  from create_chat_completion_built [OF None this, of chat request]
  show ?thesis by auto
qed



text \<open>
  Claim C4, as the code has it. When the facade hands back an \<^verbatim>\<open>ErrorResponse\<close>, the
  handler returns a JSON response whose body is the dump of that error, with its code
  and message, and whose status is the error's code. A \<^verbatim>\<open>ChatCompletionResponse\<close>
  for a request with \<^verbatim>\<open>stream\<close> false is returned as a JSON body with status 200.
  The handler catches nothing: an exception raised by the facade's call, or by the
  facade's constructor on a first request, leaves the handler.
\<close>

theorem create_chat_completion_error_response:
  "(\<forall>facade.
      openai_serving_chat (snd (create_chat_completion chat request d)) = Some facade \<longrightarrow>
        (\<forall>e. chat facade request = Inr (ErrorResponse e) \<longrightarrow>
             fst (create_chat_completion chat request d) = Inr (JSONResponse (ErrorDump e) (code e)))
        \<and> (\<forall>c. \<not> stream request \<and> chat facade request = Inr (ChatCompletionResponse c) \<longrightarrow>
             fst (create_chat_completion chat request d) = Inr (JSONResponse (CompletionDump c) 200))
        \<and> (\<forall>x. chat facade request = Inl x \<longrightarrow>
             fst (create_chat_completion chat request d) = Inl x))
   \<and> (\<forall>x. openai_serving_chat d = None \<and> constructor_error d = Some x \<longrightarrow>
        fst (create_chat_completion chat request d) = Inl x
        \<and> openai_serving_chat (snd (create_chat_completion chat request d)) = None)
   \<and> (openai_serving_chat d \<noteq> None \<or> constructor_error d = None \<longrightarrow>
        (\<exists>facade. openai_serving_chat (snd (create_chat_completion chat request d)) = Some facade))"
proof -
  have a: "(\<forall>e. chat facade request = Inr (ErrorResponse e) \<longrightarrow>
             fst (create_chat_completion chat request d) = Inr (JSONResponse (ErrorDump e) (code e)))
        \<and> (\<forall>c. \<not> stream request \<and> chat facade request = Inr (ChatCompletionResponse c) \<longrightarrow>
             fst (create_chat_completion chat request d) = Inr (JSONResponse (CompletionDump c) 200))
        \<and> (\<forall>x. chat facade request = Inl x \<longrightarrow>
             fst (create_chat_completion chat request d) = Inl x)"
    if f: "openai_serving_chat (snd (create_chat_completion chat request d)) = Some facade" for facade
    using create_chat_completion_served [OF f]
    by (simp add: chat_outcome_def respond_error respond_buffered default_status_code_def)
  have b: "\<forall>x. openai_serving_chat d = None \<and> constructor_error d = Some x \<longrightarrow>
        fst (create_chat_completion chat request d) = Inl x
        \<and> openai_serving_chat (snd (create_chat_completion chat request d)) = None"
    by (simp add: create_chat_completion_build_raises)
  have c: "openai_serving_chat d \<noteq> None \<or> constructor_error d = None \<longrightarrow>
        (\<exists>facade. openai_serving_chat (snd (create_chat_completion chat request d)) = Some facade)"
    using create_chat_completion_sets by blast
  from a b c show ?thesis by blast
qed

theorem create_chat_completion_error_response_witness:
  "fst (create_chat_completion demo_chat (demo_request True ''other'') demo_deployment)
     = Inr (JSONResponse
             (ErrorDump \<lparr>message = ''The model does not exist.'', err_type = ''NotFoundError'', code = 404\<rparr>)
             404)"
  using create_chat_completion_error_response [of demo_chat "demo_request True ''other''" demo_deployment]
  by (simp add: create_chat_completion_def get_model_config_def build_serving_chat_def make_models_def
      serve_def chat_outcome_def demo_deployment_def init_deployment_def demo_chat_def
      demo_request_def respond_def)

text \<open>
  The claim as it is written fails where the engine has stopped and the facade's call
  raises: the exception leaves the handler, and no response is returned.
\<close>

theorem create_chat_completion_raises:
  "fst (create_chat_completion dead_chat (demo_request False ''demo-7b'') demo_deployment)
     = Inl (LibraryError ''EngineDeadError'')"
  by (simp add: create_chat_completion_def get_model_config_def build_serving_chat_def
      serve_def chat_outcome_def demo_deployment_def init_deployment_def dead_chat_def)

subsection \<open>The model listing\<close>

text \<open>
  Claim C5. The listing that \<^verbatim>\<open>GET /v1/models\<close> returns starts with one base model
  path whose name and path are both the configured model; it has no other base model
  path; the configured LoRA module paths and then the prompt-adapter paths follow, in
  the order of the configuration (none of a kind that was not configured).
\<close>

theorem list_models_listing:
  "\<exists>cards. fst (list_models d) = Inr (JSONResponse (ModelListDump cards) 200)
     \<and> cards =
         BaseCard (BaseModelPath (model d) (model d))
         # map LoRACard (case lora_modules d of None \<Rightarrow> [] | Some ls \<Rightarrow> ls)
         @ map AdapterCard (case prompt_adapters d of None \<Rightarrow> [] | Some ps \<Rightarrow> ps)
     \<and> filter (\<lambda>c. case c of BaseCard p \<Rightarrow> True | _ \<Rightarrow> False) cards
         = [BaseCard (BaseModelPath (model d) (model d))]"
proof -
  have "filter (\<lambda>c. case c of BaseCard p \<Rightarrow> True | _ \<Rightarrow> False) (map LoRACard ls) = []" for ls
    by (induction ls) simp_all
  moreover have "filter (\<lambda>c. case c of BaseCard p \<Rightarrow> True | _ \<Rightarrow> False) (map AdapterCard ps) = []" for ps
    by (induction ps) simp_all
  ultimately show ?thesis
    by (simp add: list_models_def get_model_config_def make_models_def show_available_models_def
        default_status_code_def)
qed

theorem list_models_listing_witness:
  "fst (list_models demo_deployment) =
     Inr (JSONResponse
           (ModelListDump
              [BaseCard (BaseModelPath ''demo-7b'' ''demo-7b''),
               LoRACard (LoRAModulePath ''A'' ''/adapters/a''),
               LoRACard (LoRAModulePath ''B'' ''/adapters/b'')])
           200)"
  using list_models_listing [of demo_deployment]
  by (simp add: demo_deployment_def init_deployment_def)

text \<open>
  Claim C8, as the code has it. Every \<^verbatim>\<open>GET /v1/models\<close> request makes one metadata
  query of its own to the engine, whether or not the facade has been built, and
  changes nothing else of the deployment; its response is the same whatever the
  facade and the counters are: it is made from the configuration.
\<close>

theorem list_models_calls_engine:
  "snd (list_models d) = d\<lparr>metadata_calls := metadata_calls d + 1\<rparr>
   \<and> fst (list_models (d\<lparr>openai_serving_chat := facade, metadata_calls := n, objects_built := k\<rparr>))
       = fst (list_models d)"
  by (simp add: list_models_def get_model_config_def make_models_def)

theorem list_models_calls_engine_witness:
  "metadata_calls (snd (list_models demo_deployment)) = 1
   \<and> openai_serving_chat (snd (list_models demo_deployment)) = None"
  using list_models_calls_engine [where d = demo_deployment and facade = None and n = 0 and k = 0]
  by (simp add: demo_deployment_def init_deployment_def)

text \<open>
  After the facade has been built by a first chat request, with the one metadata query
  of the build, a listing makes a second query.
\<close>

theorem list_models_second_metadata_call:
  "openai_serving_chat (serve_all demo_chat [demo_request False ''demo-7b''] demo_deployment) \<noteq> None
   \<and> metadata_calls (serve_all demo_chat [demo_request False ''demo-7b''] demo_deployment) = 1
   \<and> metadata_calls (snd (list_models (serve_all demo_chat [demo_request False ''demo-7b''] demo_deployment))) = 2"
  by (simp add: create_chat_completion_def get_model_config_def build_serving_chat_def serve_def
      list_models_def demo_deployment_def init_deployment_def)

section \<open>Properties of the interleaved handlers\<close>

subsection \<open>Schedules\<close>

lemma step_unfold:
  assumes "i < length (snd s)" and "task_step chat (snd s ! i) (fst s) = (t', d')"
  shows "step chat i s = (d', (snd s)[i := t'])"
  using assms by (simp add: step_def)

text \<open>Resumed twice in a row, a handler runs from its start to its end.\<close>

lemma run_task_chat:
  assumes "i < length ts" and "ts ! i = ChatStart request"
  shows "run chat [i, i] (d, ts) =
     (snd (create_chat_completion chat request d),
      ts[i := Finished (fst (create_chat_completion chat request d))])"
proof (cases "openai_serving_chat d")
  case (Some facade)
  then show ?thesis
    using assms by (simp add: step_def create_chat_completion_def serve_def call_chat_def)
next
  case None
  show ?thesis
  proof (cases "constructor_error d")
    case (Some e)
    then show ?thesis
      using assms None
      by (simp add: step_def create_chat_completion_def get_model_config_def build_serving_chat_def)
  next
    case nce: None
    then show ?thesis
      using assms None
      by (simp add: step_def create_chat_completion_def get_model_config_def build_serving_chat_def
          serve_def call_chat_def)
  qed
qed

lemma run_task_list:
  assumes "i < length ts" and "ts ! i = ListStart"
  shows "run chat [i, i] (d, ts) = (snd (list_models d), ts[i := Finished (fst (list_models d))])"
  using assms by (simp add: step_def list_models_def get_model_config_def make_models_def)

subsection \<open>One build for all first requests\<close>







subsection \<open>Once the facade is set\<close>

lemma task_step_ready:
  assumes "task_step chat t d = (t', d')" and "openai_serving_chat d = Some facade"
    and "after_ready chat facade t0 t"
  shows "openai_serving_chat d' = Some facade \<and> objects_built d' = objects_built d
    \<and> after_ready chat facade t0 t'"
proof -
  have eff: "openai_serving_chat d' = Some facade \<and> objects_built d' = objects_built d"
    using assms(1,2)
    by (cases t) (auto simp: get_model_config_def call_chat_def split: if_splits)
  have "after_ready chat facade t0 t'"
  proof (cases t0)
    case (ChatStart request)
    then consider "t = ChatStart request" | "t = ChatAwaitChat request facade"
      | "t = Finished (chat_outcome chat request facade)"
      using assms(3) by auto
    then show ?thesis
    proof cases
      case 1
      then show ?thesis using assms(1,2) ChatStart by (auto simp: call_chat_def)
    next
      case 2
      then show ?thesis using assms(1) ChatStart by auto
    next
      case 3
      then show ?thesis using assms(1) ChatStart by auto
    qed
  qed simp_all
  then show ?thesis using eff by simp
qed

lemma step_ready_inv:
  assumes "ready_inv chat facade d0 ts0 s"
  shows "ready_inv chat facade d0 ts0 (step chat i s)"
proof (cases "i < length (snd s)")
  case False
  then show ?thesis using assms by (simp add: step_def)
next
  case True
  obtain t' d' where ts: "task_step chat (snd s ! i) (fst s) = (t', d')"
    by (cases "task_step chat (snd s ! i) (fst s)")
  have rel: "after_ready chat facade (ts0 ! i) (snd s ! i)"
    using assms True by (simp add: ready_inv_def list_all2_nthD2)
  have f: "openai_serving_chat (fst s) = Some facade"
    using assms by (simp add: ready_inv_def)
  note eff = task_step_ready [OF ts f rel]
  have "list_all2 (after_ready chat facade) (ts0[i := ts0 ! i]) ((snd s)[i := t'])"
    using assms eff by (intro list_all2_update_cong) (simp_all add: ready_inv_def)
  then have "list_all2 (after_ready chat facade) ts0 ((snd s)[i := t'])"
    by simp
  then show ?thesis
    unfolding step_unfold [OF True ts] using eff assms by (simp add: ready_inv_def)
qed

lemma run_ready_inv:
  "ready_inv chat facade d0 ts0 s \<Longrightarrow> ready_inv chat facade d0 ts0 (run chat schedule s)"
  by (induction schedule arbitrary: s) (simp_all add: step_ready_inv)

lemma after_ready_refl: "after_ready chat facade t t"
  by (cases t) simp_all

lemma ready_inv_init:
  "openai_serving_chat d = Some facade \<Longrightarrow> ready_inv chat facade d ts (d, ts)"
  by (simp add: ready_inv_def list_all2_conv_all_nth after_ready_refl)

text \<open>
  Claim C9. Once \<^verbatim>\<open>openai_serving_chat\<close> is set, no handler unsets it, replaces it or
  builds another facade, whatever requests arrive and in whatever order they are
  resumed: the stored facade stays the same object, no object is made, and every chat
  request that starts from then on is served by that facade, its result being the
  outcome of that facade's call.
\<close>

theorem ready_never_reverts:
  assumes "openai_serving_chat d = Some facade"
  shows "openai_serving_chat (fst (run chat schedule (d, ts))) = Some facade
    \<and> objects_built (fst (run chat schedule (d, ts))) = objects_built d
    \<and> (\<forall>i request. i < length ts \<and> ts ! i = ChatStart request \<longrightarrow>
          snd (run chat schedule (d, ts)) ! i = ChatStart request
          \<or> snd (run chat schedule (d, ts)) ! i = ChatAwaitChat request facade
          \<or> snd (run chat schedule (d, ts)) ! i = Finished (chat_outcome chat request facade))"
proof -
  have inv: "ready_inv chat facade d ts (run chat schedule (d, ts))"
    using ready_inv_init [OF assms] by (rule run_ready_inv)
  have "snd (run chat schedule (d, ts)) ! i = ChatStart request
        \<or> snd (run chat schedule (d, ts)) ! i = ChatAwaitChat request facade
        \<or> snd (run chat schedule (d, ts)) ! i = Finished (chat_outcome chat request facade)"
    if "i < length ts" and "ts ! i = ChatStart request" for i request
  proof -
    have "after_ready chat facade (ts ! i) (snd (run chat schedule (d, ts)) ! i)"
      using inv that(1) by (simp add: ready_inv_def list_all2_nthD)
    then show ?thesis using that(2) by simp
  qed
  then show ?thesis using inv by (simp add: ready_inv_def)
qed

theorem ready_never_reverts_witness:
  "map_option object_id
     (openai_serving_chat
        (fst (run demo_chat [0, 1, 2, 0, 1, 2]
               (serve_all demo_chat [demo_request False ''demo-7b''] demo_deployment,
                [ChatStart (demo_request False ''demo-7b''), ChatStart (demo_request True ''other''),
                 ListStart]))))
     = Some 0
   \<and> objects_built
       (fst (run demo_chat [0, 1, 2, 0, 1, 2]
              (serve_all demo_chat [demo_request False ''demo-7b''] demo_deployment,
               [ChatStart (demo_request False ''demo-7b''), ChatStart (demo_request True ''other''),
                ListStart])))
     = 1"
proof -
  have h: "openai_serving_chat (serve_all demo_chat [demo_request False ''demo-7b''] demo_deployment)
      = Some \<lparr>object_id = 0, sc_model_config = ModelConfig ''demo-7b'',
              sc_models = make_models demo_deployment (ModelConfig ''demo-7b''),
              sc_response_role = ''assistant'', sc_request_logger = None, sc_chat_template = None,
              sc_content_format = ''auto''\<rparr>"
    by (simp add: create_chat_completion_def get_model_config_def build_serving_chat_def serve_def
        make_models_def demo_deployment_def init_deployment_def)
  have k: "objects_built (serve_all demo_chat [demo_request False ''demo-7b''] demo_deployment) = 1"
    by (simp add: create_chat_completion_def get_model_config_def build_serving_chat_def serve_def
        demo_deployment_def init_deployment_def)
  from ready_never_reverts [OF h, of demo_chat "[0, 1, 2, 0, 1, 2]"
      "[ChatStart (demo_request False ''demo-7b''), ChatStart (demo_request True ''other''),
        ListStart]"]
  show ?thesis using k by simp
qed

end
